theory Spec2Isabelle
  imports Main "HOL-Library.Word" "HOL-Library.Signed_Division" "HOL-Library.Sublist"
begin

section \<open>The log file writer: data\<close>

text \<open>
  The writer of \<^verbatim>\<open>logfilewriter.go\<close>. An open file is known to the program by the name it
  was opened with; \<^verbatim>\<open>os.Stdout\<close> is a handle of its own (the code compares pointers with
  it), and the nil pointer is the value of the atomic slot before the first store.
\<close>

type_synonym bytes = "8 word list"

datatype handle = NilFile | Stdout | File string

datatype error = ErrInvalid | Errno nat

record fileWriter =
  dir :: string
  file_name :: string
  sizeLimit :: "64 word"
  archiveDir :: string
  compress :: bool
  rotateDays :: int
  rotating :: "32 word"
  wn :: "64 word"
  fp :: handle

text \<open>\<^verbatim>\<open>(*os.File).Name\<close>: the name given to the open call; \<^verbatim>\<open>os.Stdout\<close> was made
  with the name \<^verbatim>\<open>/dev/stdout\<close>. The code calls it only on a non-nil pointer.\<close>

fun Name :: "handle \<Rightarrow> string" where
  "Name Stdout = ''/dev/stdout''"
| "Name (File n) = n"
| "Name NilFile = []"

section \<open>Time values of the Go library\<close>

text \<open>
  A \<^verbatim>\<open>time.Time\<close> is kept as its calendar fields in its own location, together with the
  offset of that location from UTC in seconds. \<^verbatim>\<open>Format\<close> prints the fields,
  \<^verbatim>\<open>Unix\<close> counts the seconds since 1970-01-01 00:00:00 UTC.
\<close>

record gotime =
  t_year :: int
  t_month :: int
  t_day :: int
  t_hour :: int
  t_min :: int
  t_sec :: int
  t_offset :: int

definition isLeap :: "int \<Rightarrow> bool" where
  "isLeap y = (y mod 4 = 0 \<and> (y mod 100 \<noteq> 0 \<or> y mod 400 = 0))"

definition daysIn :: "int \<Rightarrow> int \<Rightarrow> int" where
  "daysIn m y =
     (if m = 2 then (if isLeap y then 29 else 28)
      else if m = 4 \<or> m = 6 \<or> m = 9 \<or> m = 11 then 30 else 31)"

text \<open>Days from 1970-01-01 to the given date of the proleptic Gregorian calendar.\<close>

definition daysSinceEpoch :: "int \<Rightarrow> int \<Rightarrow> int \<Rightarrow> int" where
  "daysSinceEpoch y m d =
     (let y' = (if m \<le> 2 then y - 1 else y);
          era = y' div 400;
          yoe = y' - era * 400;
          doy = (153 * (if 2 < m then m - 3 else m + 9) + 2) div 5 + d - 1;
          doe = yoe * 365 + yoe div 4 - yoe div 100 + doy
      in era * 146097 + doe - 719468)"

definition Unix :: "gotime \<Rightarrow> int" where
  "Unix t = daysSinceEpoch (t_year t) (t_month t) (t_day t) * 86400
            + t_hour t * 3600 + t_min t * 60 + t_sec t - t_offset t"

subsection \<open>Formatting\<close>

definition digitChar :: "nat \<Rightarrow> char" where
  "digitChar n = char_of (48 + n)"

fun decimal :: "nat \<Rightarrow> string" where
  "decimal n = (if n < 10 then [digitChar n] else decimal (n div 10) @ [digitChar (n mod 10)])"

declare decimal.simps [simp del]

text \<open>\<^verbatim>\<open>appendInt\<close> of package time: a sign, then the decimal digits padded with zeros
  to the width; the widths 2 and 4 have their own branch in the library.\<close>

definition appendInt :: "int \<Rightarrow> nat \<Rightarrow> string" where
  "appendInt x width =
     (let u = nat \<bar>x\<bar>; sign = (if x < 0 then ''-'' else [])
      in if width = 2 \<and> u < 100 then sign @ [digitChar (u div 10), digitChar (u mod 10)]
         else if width = 4 \<and> u < 10000 then
           sign @ [digitChar (u div 100 div 10), digitChar (u div 100 mod 10),
                   digitChar (u mod 100 div 10), digitChar (u mod 100 mod 10)]
         else sign @ replicate (width - length (decimal u)) (CHR ''0'') @ decimal u)"

definition fileTimeLayout :: string where
  "fileTimeLayout = ''20060102-150405''"

definition archiveDateLayout :: string where
  "archiveDateLayout = ''20060102''"

text \<open>\<^verbatim>\<open>t.Format(archiveDateLayout)\<close> and \<^verbatim>\<open>t.Format(fileTimeLayout)\<close>.\<close>

definition Format_archiveDate :: "gotime \<Rightarrow> string" where
  "Format_archiveDate t = appendInt (t_year t) 4 @ appendInt (t_month t) 2 @ appendInt (t_day t) 2"

definition Format_fileTime :: "gotime \<Rightarrow> string" where
  "Format_fileTime t =
     appendInt (t_year t) 4 @ appendInt (t_month t) 2 @ appendInt (t_day t) 2 @ ''-'' @
     appendInt (t_hour t) 2 @ appendInt (t_min t) 2 @ appendInt (t_sec t) 2"

subsection \<open>Parsing\<close>

definition isDigit :: "char \<Rightarrow> bool" where
  "isDigit c = (48 \<le> (of_char c :: nat) \<and> (of_char c :: nat) \<le> 57)"

definition digitVal :: "char \<Rightarrow> int" where
  "digitVal c = int (of_char c) - 48"

text \<open>\<^verbatim>\<open>getnum\<close>: one or two digits; with \<open>fixed\<close> exactly two.\<close>

fun getnum :: "string \<Rightarrow> bool \<Rightarrow> (int \<times> string) option" where
  "getnum [] fixed = None"
| "getnum [a] fixed =
     (if isDigit a then (if fixed then None else Some (digitVal a, [])) else None)"
| "getnum (a # b # rest) fixed =
     (if isDigit a then
        (if isDigit b then Some (digitVal a * 10 + digitVal b, rest)
         else if fixed then None else Some (digitVal a, b # rest))
      else None)"

text \<open>The chunk \<^verbatim>\<open>2006\<close>: four characters, all of them digits.\<close>

fun getyear :: "string \<Rightarrow> (int \<times> string) option" where
  "getyear (a # b # c # d # rest) =
     (if isDigit a \<and> isDigit b \<and> isDigit c \<and> isDigit d
      then Some (digitVal a * 1000 + digitVal b * 100 + digitVal c * 10 + digitVal d, rest)
      else None)"
| "getyear _ = None"

text \<open>A fraction of a second that the layout does not ask for is read and dropped from the
  fields kept here: a comma or period followed by digits.\<close>

definition skipFraction :: "string \<Rightarrow> string" where
  "skipFraction v =
     (case v of
        c # d # rest \<Rightarrow>
          (if (c = CHR ''.'' \<or> c = CHR '','') \<and> isDigit d then dropWhile isDigit (d # rest) else v)
      | _ \<Rightarrow> v)"

text \<open>\<^verbatim>\<open>time.Parse(archiveDateLayout, value)\<close>: year, month and day, nothing after them,
  the day checked against the month at the end; the result is in UTC.\<close>

definition Parse_archiveDate :: "string \<Rightarrow> gotime option" where
  "Parse_archiveDate v =
     (case getyear v of None \<Rightarrow> None | Some (y, v1) \<Rightarrow>
     (case getnum v1 True of None \<Rightarrow> None | Some (mo, v2) \<Rightarrow>
      if mo \<le> 0 \<or> 12 < mo then None else
     (case getnum v2 True of None \<Rightarrow> None | Some (d, v3) \<Rightarrow>
      if v3 \<noteq> [] then None
      else if d < 1 \<or> daysIn mo y < d then None
      else Some \<lparr>t_year = y, t_month = mo, t_day = d, t_hour = 0, t_min = 0, t_sec = 0,
                 t_offset = 0\<rparr>)))"

text \<open>\<^verbatim>\<open>time.Parse(fileTimeLayout, value)\<close>: the hour chunk \<^verbatim>\<open>15\<close> is read with
  \<^verbatim>\<open>getnum(value, false)\<close>, minute and second with two digits each.\<close>

definition Parse_fileTime :: "string \<Rightarrow> gotime option" where
  "Parse_fileTime v =
     (case getyear v of None \<Rightarrow> None | Some (y, v1) \<Rightarrow>
     (case getnum v1 True of None \<Rightarrow> None | Some (mo, v2) \<Rightarrow>
      if mo \<le> 0 \<or> 12 < mo then None else
     (case getnum v2 True of None \<Rightarrow> None | Some (d, v3) \<Rightarrow>
     (case v3 of [] \<Rightarrow> None | sep # v4 \<Rightarrow>
      if sep \<noteq> CHR ''-'' then None else
     (case getnum v4 False of None \<Rightarrow> None | Some (h, v5) \<Rightarrow>
      if h < 0 \<or> 24 \<le> h then None else
     (case getnum v5 True of None \<Rightarrow> None | Some (mi, v6) \<Rightarrow>
      if mi < 0 \<or> 60 \<le> mi then None else
     (case getnum v6 True of None \<Rightarrow> None | Some (s, v7) \<Rightarrow>
      if s < 0 \<or> 60 \<le> s then None else
      if skipFraction v7 \<noteq> [] then None
      else if d < 1 \<or> daysIn mo y < d then None
      else Some \<lparr>t_year = y, t_month = mo, t_day = d, t_hour = h, t_min = mi, t_sec = s,
                 t_offset = 0\<rparr>)))))))"

section \<open>Paths of package filepath (slash separated)\<close>

fun splitSep :: "string \<Rightarrow> string list" where
  "splitSep [] = [[]]"
| "splitSep (c # cs) =
     (if c = CHR ''/'' then [] # splitSep cs
      else (case splitSep cs of [] \<Rightarrow> [[c]] | x # xs \<Rightarrow> (c # x) # xs))"

fun joinSep :: "string list \<Rightarrow> string" where
  "joinSep [] = []"
| "joinSep [e] = e"
| "joinSep (e # es) = e @ ''/'' @ joinSep es"

text \<open>The loop of \<^verbatim>\<open>Clean\<close> over the elements of the path: empty elements and
  \<^verbatim>\<open>.\<close> are dropped, \<^verbatim>\<open>..\<close> removes the element before it when there is one to
  remove, and is kept in front of a path that is not rooted.\<close>

fun cleanElems :: "bool \<Rightarrow> string list \<Rightarrow> string list \<Rightarrow> nat \<Rightarrow> string list" where
  "cleanElems rooted [] out dotdot = out"
| "cleanElems rooted (e # es) out dotdot =
     (if e = [] \<or> e = ''.'' then cleanElems rooted es out dotdot
      else if e = ''..'' then
        (if dotdot < length out then cleanElems rooted es (butlast out) dotdot
         else if rooted then cleanElems rooted es out dotdot
         else cleanElems rooted es (out @ [''..'']) (Suc (length out)))
      else cleanElems rooted es (out @ [e]) dotdot)"

definition Clean :: "string \<Rightarrow> string" where
  "Clean path =
     (case path of [] \<Rightarrow> ''.''
      | c # _ \<Rightarrow>
          (let rooted = (c = CHR ''/'');
               out = (if rooted then ''/'' else []) @ joinSep (cleanElems rooted (splitSep path) [] 0)
           in if out = [] then ''.'' else out))"

definition Join :: "string list \<Rightarrow> string" where
  "Join elem = (case dropWhile (\<lambda>e. e = []) elem of [] \<Rightarrow> [] | es \<Rightarrow> Clean (joinSep es))"

definition Base :: "string \<Rightarrow> string" where
  "Base path =
     (if path = [] then ''.''
      else
        (let p = rev (dropWhile (\<lambda>c. c = CHR ''/'') (rev path));
             b = rev (takeWhile (\<lambda>c. c \<noteq> CHR ''/'') (rev p))
         in if b = [] then ''/'' else b))"

section \<open>The operating system\<close>

text \<open>
  Every call the writer makes to the operating system, with its arguments. What a call
  returns is decided by the world the program runs in: \<open>sys\<close> gives, for a call and a
  world, the reply and the world after the call. The program reads from a reply the parts
  the call has: the error, the directory listing, the clock, the number of bytes written.
\<close>

record dirent =
  e_name :: string
  e_isDir :: bool

datatype syscall =
    MkdirAll string
  | Now
  | OpenFile string
  | Sleep nat
  | FileWrite handle bytes
  | FileClose handle
  | ReadDir string
  | RemoveAll string
  | Rename string string
  | Open string
  | GzipCopy string string
  | GzipClose string
  | Remove string

record reply =
  err :: "error option"
  entries :: "dirent list"
  now :: gotime
  written :: int

text \<open>What the program does, in order: its calls with their replies, and its atomic
  operations on the fields of the writer.\<close>

datatype event =
    Sys syscall reply
  | AddWn "64 word" "64 word"
  | CasRotating bool
  | Go_replaceAndRotate
  | LoadFp handle
  | StoreFp handle
  | StoreWn "64 word"
  | StoreRotating "32 word"

record 'w run =
  world :: 'w
  trace :: "event list"

type_synonym 'w sys = "syscall \<Rightarrow> 'w \<Rightarrow> reply \<times> 'w"

definition call :: "'w sys \<Rightarrow> syscall \<Rightarrow> 'w run \<Rightarrow> reply \<times> 'w run" where
  "call sys c st =
     (let (r, w') = sys c (world st)
      in (r, \<lparr>world = w', trace = trace st @ [Sys c r]\<rparr>))"

definition emit :: "event \<Rightarrow> 'w run \<Rightarrow> 'w run" where
  "emit e st = st\<lparr>trace := trace st @ [e]\<rparr>"

text \<open>The calls to the operating system in a trace, in order.\<close>

fun sys_calls :: "event list \<Rightarrow> syscall list" where
  "sys_calls [] = []"
| "sys_calls (Sys c r # es) = c # sys_calls es"
| "sys_calls (_ # es) = sys_calls es"

text \<open>\<^verbatim>\<open>(*os.File).Write\<close> and \<^verbatim>\<open>Close\<close> refuse a nil receiver with
  \<^verbatim>\<open>ErrInvalid\<close> before they reach the operating system.\<close>

definition file_Write :: "'w sys \<Rightarrow> handle \<Rightarrow> bytes \<Rightarrow> 'w run \<Rightarrow> (int \<times> error option) \<times> 'w run" where
  "file_Write sys h b st =
     (if h = NilFile then ((0, Some ErrInvalid), st)
      else (let (r, st') = call sys (FileWrite h b) st in ((written r, err r), st')))"

definition file_Close :: "'w sys \<Rightarrow> handle \<Rightarrow> 'w run \<Rightarrow> error option \<times> 'w run" where
  "file_Close sys h st =
     (if h = NilFile then (Some ErrInvalid, st)
      else (let (r, st') = call sys (FileClose h) st in (err r, st')))"

section \<open>The writer's operations\<close>

subsection \<open>Write and Close\<close>

text \<open>
  \<^verbatim>\<open>Write\<close>: the size test is a short-circuit conjunction, so the counter is touched
  only when a limit is set. The goroutine that \<^verbatim>\<open>go fw.replaceAndRotate()\<close> starts is
  not run here: the start is an event, and \<^verbatim>\<open>Write\<close> goes on to the write itself.
\<close>

definition Write :: "'w sys \<Rightarrow> bytes \<Rightarrow> fileWriter \<times> 'w run \<Rightarrow> (int \<times> error option) \<times> fileWriter \<times> 'w run" where
  "Write sys b s =
     (let (fw, st) = s;
          (fw1, st1) =
            (if 0 <s sizeLimit fw then
               (let n = wn fw + of_nat (length b);
                    fw' = fw\<lparr>wn := n\<rparr>;
                    st' = emit (AddWn (of_nat (length b)) n) st
                in if sizeLimit fw <s n then
                     (if rotating fw' = 0
                      then (fw'\<lparr>rotating := 1\<rparr>, emit Go_replaceAndRotate (emit (CasRotating True) st'))
                      else (fw', emit (CasRotating False) st'))
                   else (fw', st'))
             else (fw, st));
          h = fp fw1;
          (res, st2) = file_Write sys h b (emit (LoadFp h) st1)
      in (res, fw1, st2))"


subsection \<open>The retention sweep\<close>

definition removeArchive :: "'w sys \<Rightarrow> fileWriter \<Rightarrow> string \<Rightarrow> 'w run \<Rightarrow> 'w run" where
  "removeArchive sys fw d st = snd (call sys (RemoveAll (Join [archiveDir fw, d])) st)"

text \<open>The loop of \<^verbatim>\<open>remove\<close> over the entries of the archive directory; \<open>tnow\<close> is the
  value of \<^verbatim>\<open>time.Now()\<close> read before the loop. Go's \<^verbatim>\<open>/\<close> on integers truncates
  towards zero: \<open>sdiv\<close>. Both \<^verbatim>\<open>Unix()\<close> values are far inside the 64-bit range
  (the parsed year has four digits), so their difference does not wrap.\<close>

fun remove_loop :: "'w sys \<Rightarrow> fileWriter \<Rightarrow> gotime \<Rightarrow> dirent list \<Rightarrow> 'w run \<Rightarrow> 'w run" where
  "remove_loop sys fw tnow [] st = st"
| "remove_loop sys fw tnow (entry # es) st =
     (if \<not> e_isDir entry then remove_loop sys fw tnow es st
      else if length (e_name entry) \<noteq> length archiveDateLayout then remove_loop sys fw tnow es st
      else
        (case Parse_archiveDate (e_name entry) of
           None \<Rightarrow> remove_loop sys fw tnow es st
         | Some date \<Rightarrow>
             (if (Unix tnow - Unix date) sdiv (24 * 3600) \<le> rotateDays fw
              then remove_loop sys fw tnow es st
              else remove_loop sys fw tnow es (removeArchive sys fw (e_name entry) st))))"

definition remove :: "'w sys \<Rightarrow> fileWriter \<Rightarrow> 'w run \<Rightarrow> 'w run" where
  "remove sys fw st =
     (let (r, st1) = call sys (ReadDir (archiveDir fw)) st
      in if err r \<noteq> None then st1
         else (let (t, st2) = call sys Now st1
               in remove_loop sys fw (now t) (entries r) st2))"

subsection \<open>The archiver\<close>

text \<open>\<^verbatim>\<open>archiveFile\<close>. The three deferred calls run when the function returns, last
  deferred first: the gzip writer is closed, then the destination, then the source.\<close>

definition archiveFile :: "'w sys \<Rightarrow> fileWriter \<Rightarrow> string \<Rightarrow> gotime \<Rightarrow> 'w run \<Rightarrow> 'w run" where
  "archiveFile sys fw name t st =
     (let h = fp fw;
          st0 = emit (LoadFp h) st;
          opened = (if h \<noteq> NilFile then Base (Name h) else [])
      in if name = opened then st0
         else
           (let adir = Join [archiveDir fw, Format_archiveDate t];
                (r1, st1) = call sys (MkdirAll adir) st0
            in if err r1 \<noteq> None then st1
               else
                 (let originFile = Join [dir fw, name];
                      dst = Join [adir, name]
                  in if \<not> compress fw then snd (call sys (Rename originFile dst) st1)
                     else
                       (let (r2, st2) = call sys (Open originFile) st1
                        in if err r2 \<noteq> None then st2
                           else
                             (let gz = dst @ ''.gz'';
                                  (r3, st3) = call sys (OpenFile gz) st2
                              in if err r3 \<noteq> None
                                 then snd (call sys (FileClose (File originFile)) st3)
                                 else
                                   (let (r4, st4) = call sys (GzipCopy gz originFile) st3;
                                        st5 = (if err r4 \<noteq> None then st4
                                               else snd (call sys (Remove (Join [dir fw, name])) st4));
                                        st6 = snd (call sys (GzipClose gz) st5);
                                        st7 = snd (call sys (FileClose (File gz)) st6)
                                    in snd (call sys (FileClose (File originFile)) st7)))))))"

text \<open>The loop of \<^verbatim>\<open>archive\<close> over the entries of the write directory. The slice
  \<^verbatim>\<open>name[len(name)-15:]\<close> is taken after the length test, so it is in range.\<close>

fun archive_loop :: "'w sys \<Rightarrow> fileWriter \<Rightarrow> dirent list \<Rightarrow> 'w run \<Rightarrow> 'w run" where
  "archive_loop sys fw [] st = st"
| "archive_loop sys fw (entry # es) st =
     (if e_isDir entry then archive_loop sys fw es st
      else
        (let name = Base (e_name entry)
         in if length name \<noteq> length (file_name fw) + 1 + length fileTimeLayout
            then archive_loop sys fw es st
            else if \<not> prefix (file_name fw @ ''-'') name then archive_loop sys fw es st
            else
              (case Parse_fileTime (drop (length name - 15) name) of
                 None \<Rightarrow> archive_loop sys fw es st
               | Some t \<Rightarrow> archive_loop sys fw es (archiveFile sys fw name t st))))"

definition archive :: "'w sys \<Rightarrow> fileWriter \<Rightarrow> 'w run \<Rightarrow> 'w run" where
  "archive sys fw st =
     (let (r, st1) = call sys (ReadDir (dir fw)) st
      in if err r \<noteq> None then st1 else archive_loop sys fw (entries r) st1)"

subsection \<open>Rotation\<close>

text \<open>\<^verbatim>\<open>rotate\<close> of the source (the name \<open>rotate\<close> is taken by a list function).\<close>

definition rotate_fw :: "'w sys \<Rightarrow> fileWriter \<Rightarrow> 'w run \<Rightarrow> 'w run" where
  "rotate_fw sys fw st =
     (if archiveDir fw \<noteq> [] then archive sys fw (remove sys fw st) else st)"

text \<open>\<^verbatim>\<open>replaceAndRotate\<close>. The deferred store of 0 to \<^verbatim>\<open>rotating\<close> is the last
  thing on both ways out.\<close>

definition replaceAndRotate :: "'w sys \<Rightarrow> fileWriter \<times> 'w run \<Rightarrow> fileWriter \<times> 'w run" where
  "replaceAndRotate sys s =
     (let (fw, st) = s;
          st1 = snd (call sys (MkdirAll (dir fw)) st);
          (t, st2) = call sys Now st1;
          name = Join [dir fw, file_name fw] @ ''-'' @ Format_fileTime (now t);
          (r, st3) = call sys (OpenFile name) st2
      in if err r \<noteq> None then
           (let st4 = snd (call sys (Sleep 10) st3)
            in (fw\<lparr>rotating := 0\<rparr>, emit (StoreRotating 0) st4))
         else
           (let old = fp fw;
                st4 = emit (LoadFp old) st3;
                fw5 = fw\<lparr>wn := 0\<rparr>;
                st5 = emit (StoreWn 0) st4;
                fw6 = fw5\<lparr>fp := File name\<rparr>;
                st6 = emit (StoreFp (File name)) st5;
                st7 = (if old \<noteq> Stdout
                       then snd (file_Close sys old (snd (call sys (Sleep 10) st6)))
                       else st6);
                st8 = rotate_fw sys fw6 st7
            in (fw6\<lparr>rotating := 0\<rparr>, emit (StoreRotating 0) st8)))"

section \<open>The two ways into the rotation, interleaved\<close>

text \<open>
  The goroutines that can be inside \<^verbatim>\<open>replaceAndRotate\<close>: those started by
  \<^verbatim>\<open>go fw.replaceAndRotate()\<close> in \<^verbatim>\<open>Write\<close>, and the one of
  \<^verbatim>\<open>autoReplaceFileEveryday\<close>, which calls the function when its sleep is over. Each is
  at a point of the function's body; the step relation moves one goroutine at a time.
\<close>

datatype point = AtOpen | AtRetry | AtSwap | AtGrace | AtArchive

record threads =
  c_sizeLimit :: "64 word"
  c_rotating :: "32 word"
  c_wn :: "64 word"
  c_spawned :: "point list"
  c_timer :: "point option"

text \<open>The part of \<^verbatim>\<open>Write\<close> before the write itself, for \<open>n\<close> bytes.\<close>

definition write_trigger :: "nat \<Rightarrow> threads \<Rightarrow> threads" where
  "write_trigger n s =
     (if 0 <s c_sizeLimit s then
        (let s' = s\<lparr>c_wn := c_wn s + of_nat n\<rparr>
         in if c_sizeLimit s <s c_wn s' then
              (if c_rotating s' = 0
               then s'\<lparr>c_rotating := 1, c_spawned := c_spawned s' @ [AtOpen]\<rparr>
               else s')
            else s')
      else s)"

text \<open>One step inside the body: the open fails or succeeds, the handles are swapped and
  the counter reset, the old handle is closed after the delay, the archive pass runs.\<close>

inductive body_step :: "point \<Rightarrow> point \<Rightarrow> bool" where
  open_failed: "body_step AtOpen AtRetry"
| open_ok: "body_step AtOpen AtSwap"
| swapped_file: "body_step AtSwap AtGrace"
| swapped_stdout: "body_step AtSwap AtArchive"
| closed_old: "body_step AtGrace AtArchive"

text \<open>The points from which the function returns, running the deferred store.\<close>

fun returns :: "point \<Rightarrow> bool" where
  "returns AtRetry = True"
| "returns AtArchive = True"
| "returns _ = False"

definition at_swap :: "point \<Rightarrow> threads \<Rightarrow> threads" where
  "at_swap p s = (if p = AtSwap then s\<lparr>c_wn := 0\<rparr> else s)"

inductive step :: "threads \<Rightarrow> threads \<Rightarrow> bool" where
  writes: "step s (write_trigger n s)"
| timer_wakes: "c_timer s = None \<Longrightarrow> step s (s\<lparr>c_timer := Some AtOpen\<rparr>)"
| timer_moves: "c_timer s = Some p \<Longrightarrow> body_step p q \<Longrightarrow>
     step s ((at_swap p s)\<lparr>c_timer := Some q\<rparr>)"
| timer_returns: "c_timer s = Some p \<Longrightarrow> returns p \<Longrightarrow>
     step s (s\<lparr>c_rotating := 0, c_timer := None\<rparr>)"
| spawned_moves: "i < length (c_spawned s) \<Longrightarrow> body_step (c_spawned s ! i) q \<Longrightarrow>
     step s ((at_swap (c_spawned s ! i) s)\<lparr>c_spawned := (c_spawned s)[i := q]\<rparr>)"
| spawned_returns: "i < length (c_spawned s) \<Longrightarrow> returns (c_spawned s ! i) \<Longrightarrow>
     step s (s\<lparr>c_rotating := 0, c_spawned := take i (c_spawned s) @ drop (Suc i) (c_spawned s)\<rparr>)"

text \<open>The writer as \<^verbatim>\<open>New\<close> leaves it, and the number of executions of the body in
  progress.\<close>

definition started :: "64 word \<Rightarrow> threads" where
  "started limit =
     \<lparr>c_sizeLimit = limit, c_rotating = 0, c_wn = 0, c_spawned = [], c_timer = None\<rparr>"

definition in_body :: "threads \<Rightarrow> nat" where
  "in_body s = length (c_spawned s) + (case c_timer s of None \<Rightarrow> 0 | Some _ \<Rightarrow> 1)"

section \<open>A sample world\<close>

text \<open>
  A world for running the operations on concrete inputs: a clock that stands still, the
  listings of some directories, and the calls that fail. A directory without a listing
  cannot be read; a write that does not fail writes every byte.
\<close>

record sample =
  s_clock :: gotime
  s_dirs :: "(string \<times> dirent list) list"
  s_failing :: "syscall list"

definition sample_sys :: "sample sys" where
  "sample_sys c w =
     (let failed = (if c \<in> set (s_failing w) then Some (Errno 5) else None);
          listing = (case c of ReadDir d \<Rightarrow> map_of (s_dirs w) d | _ \<Rightarrow> Some [])
      in (\<lparr>err = (case listing of None \<Rightarrow> Some (Errno 2) | Some _ \<Rightarrow> failed),
           entries = (case listing of None \<Rightarrow> [] | Some es \<Rightarrow> es),
           now = s_clock w,
           written = (case c of FileWrite h b \<Rightarrow> (if failed = None then int (length b) else 0)
                      | _ \<Rightarrow> 0)\<rparr>, w))"

definition at :: "int \<Rightarrow> int \<Rightarrow> int \<Rightarrow> int \<Rightarrow> int \<Rightarrow> int \<Rightarrow> int \<Rightarrow> gotime" where
  "at y mo d h mi s off =
     \<lparr>t_year = y, t_month = mo, t_day = d, t_hour = h, t_min = mi, t_sec = s, t_offset = off\<rparr>"

definition begin_run :: "'w \<Rightarrow> 'w run" where
  "begin_run w = \<lparr>world = w, trace = []\<rparr>"

definition sample_writer :: fileWriter where
  "sample_writer =
     \<lparr>dir = ''log'', file_name = ''app'', sizeLimit = 0, archiveDir = ''archive'',
      compress = False, rotateDays = 0, rotating = 0, wn = 0,
      fp = File ''log/app-20240105-000000''\<rparr>"

section \<open>The age of an archive directory, as the specification words it\<close>

text \<open>The reading of the wall clock of a time value, in seconds, and the age in whole days
  between two such readings.\<close>

definition wallClock :: "gotime \<Rightarrow> int" where
  "wallClock t = Unix t + t_offset t"

definition spec_ageDays :: "gotime \<Rightarrow> gotime \<Rightarrow> int" where
  "spec_ageDays tnow date = (wallClock tnow - wallClock date) sdiv 86400"

definition full_disk :: sample where
  "full_disk =
     \<lparr>s_clock = at 2024 1 5 0 0 0 0, s_dirs = [],
      s_failing = [FileWrite (File ''log/app-20240105-000000'') [1, 2, 3]]\<rparr>"

definition open_refused :: sample where
  "open_refused =
     \<lparr>s_clock = at 2024 1 5 0 0 0 0, s_dirs = [],
      s_failing = [OpenFile ''log/app-20240105-000000'']\<rparr>"

definition a_week_on :: sample where
  "a_week_on =
     \<lparr>s_clock = at 2024 1 5 0 0 0 0,
      s_dirs = [(''archive'', [\<lparr>e_name = ''20240101'', e_isDir = True\<rparr>]),
                (''log'', [\<lparr>e_name = ''app-20240102-030405'', e_isDir = False\<rparr>,
                           \<lparr>e_name = ''app-20240105-000000'', e_isDir = False\<rparr>])],
      s_failing = []\<rparr>"

definition midnight_east :: sample where
  "midnight_east =
     \<lparr>s_clock = at 2024 1 9 0 0 0 28800,
      s_dirs = [(''archive'', [\<lparr>e_name = ''20240101'', e_isDir = True\<rparr>])],
      s_failing = []\<rparr>"

section \<open>Facts about traces\<close>

lemma sys_calls_append: "sys_calls (xs @ ys) = sys_calls xs @ sys_calls ys"
  by (induction xs rule: sys_calls.induct) simp_all

lemma world_emit: "world (emit e st) = world st"
  by (simp add: emit_def)

lemma trace_emit: "trace (emit e st) = trace st @ [e]"
  by (simp add: emit_def)

lemma call_eq:
  "sys c (world st) = (r, w') \<Longrightarrow>
   call sys c st = (r, \<lparr>world = w', trace = trace st @ [Sys c r]\<rparr>)"
  by (simp add: call_def)

section \<open>Write\<close>

text \<open>
  C3, as the code has it: \<^verbatim>\<open>Write\<close> hands back what the write on the handle in the slot
  returns, the number of bytes and the error alike. It adds no error of its own and
  removes none; on the nil handle the library answers \<^verbatim>\<open>ErrInvalid\<close>.
\<close>

theorem Write_returns_what_the_handle_returns:
  "fst (Write sys b (fw, st)) =
     (if fp fw = NilFile then (0, Some ErrInvalid)
      else (written (fst (sys (FileWrite (fp fw) b) (world st))),
            err (fst (sys (FileWrite (fp fw) b) (world st)))))"
  by (simp add: Write_def file_Write_def call_def Let_def world_emit split: prod.splits)

text \<open>C3 as stated fails: when the write on the active file fails, the caller of
  \<^verbatim>\<open>Write\<close> gets the error.\<close>

theorem Write_error_counterexample:
  "fst (Write sample_sys [1, 2, 3] (sample_writer, begin_run full_disk)) = (0, Some (Errno 5))"
  by (simp add: Write_def file_Write_def call_def Let_def emit_def sample_sys_def
      sample_writer_def begin_run_def full_disk_def)

section \<open>Close\<close>



section \<open>The counter and the trigger in Write\<close>

text \<open>
  C5, as the code has it. With a limit set (\<open>0 < sizeLimit\<close>) the counter is increased by
  the number of bytes, wrapping at 64 bits, before the handle is loaded and written to; the
  compare-and-swap on \<^verbatim>\<open>rotating\<close> is tried exactly when the new total is above the
  limit, and the goroutine is started exactly when that swap succeeds. With no limit set the
  counter is not touched and nothing is tried. In every case the only call to the operating
  system is the write itself: \<^verbatim>\<open>Write\<close> never sleeps and never opens a file.
\<close>

theorem Write_counts_then_writes:
  assumes "Write sys b (fw, st) = (res, fw', st')"
  shows "\<exists>wr. trace st' =
           trace st
           @ (if 0 <s sizeLimit fw then
                AddWn (of_nat (length b)) (wn fw + of_nat (length b))
                # (if sizeLimit fw <s wn fw + of_nat (length b) then
                     (if rotating fw = 0 then [CasRotating True, Go_replaceAndRotate]
                      else [CasRotating False])
                   else [])
              else [])
           @ LoadFp (fp fw) # wr
         \<and> sys_calls wr = (if fp fw = NilFile then [] else [FileWrite (fp fw) b])
         \<and> wn fw' = (if 0 <s sizeLimit fw then wn fw + of_nat (length b) else wn fw)
         \<and> rotating fw' =
             (if 0 <s sizeLimit fw \<and> sizeLimit fw <s wn fw + of_nat (length b) \<and> rotating fw = 0
              then 1 else rotating fw)
         \<and> fp fw' = fp fw"
  using assms
  by (auto simp: Write_def file_Write_def call_def Let_def emit_def split: prod.splits if_splits)

theorem Write_counts_then_writes_witness:
  "wn (fst (snd (Write sample_sys [1, 2, 3]
        (sample_writer\<lparr>sizeLimit := 2\<rparr>, begin_run full_disk)))) = 3
   \<and> rotating (fst (snd (Write sample_sys [1, 2, 3]
        (sample_writer\<lparr>sizeLimit := 2\<rparr>, begin_run full_disk)))) = 1"
proof -
  obtain res fw' st'
    where a: "Write sample_sys [1, 2, 3] (sample_writer\<lparr>sizeLimit := 2\<rparr>, begin_run full_disk)
              = (res, fw', st')"
    by (rule prod_cases3)
  from Write_counts_then_writes [OF a] have "wn fw' = 3" and "rotating fw' = 1"
    by (auto simp: sample_writer_def word_sless_alt)
  then show ?thesis using a by simp
qed

text \<open>C5 as stated fails: with no limit set, a write of three bytes leaves the counter
  where it was.\<close>

theorem Write_unset_limit_counterexample:
  "wn (fst (snd (Write sample_sys [1, 2, 3] (sample_writer, begin_run full_disk)))) = 0
   \<and> wn sample_writer + of_nat (length [1, 2, 3 :: 8 word]) = 3"
  by (simp add: Write_def file_Write_def call_def Let_def emit_def sample_sys_def
      sample_writer_def begin_run_def full_disk_def)

section \<open>A rotation whose open fails\<close>

lemma sample_sys_world: "snd (sample_sys c w) = w"
  by (simp add: sample_sys_def Let_def)

text \<open>
  C8: when the open of the new file fails, \<^verbatim>\<open>replaceAndRotate\<close> makes the directory,
  reads the clock, tries the open, sleeps ten seconds and stores 0 to \<^verbatim>\<open>rotating\<close>, in
  this order and nothing else: the counter and the active handle are as before, no
  directory is listed, nothing is removed or archived, and the guard is free again.
\<close>

theorem failed_open_abandons_rotation:
  assumes "sys (MkdirAll (dir fw)) (world st) = (r1, w1)"
    and "sys Now w1 = (r2, w2)"
    and "name = Join [dir fw, file_name fw] @ ''-'' @ Format_fileTime (now r2)"
    and "sys (OpenFile name) w2 = (r3, w3)"
    and "err r3 \<noteq> None"
    and "sys (Sleep 10) w3 = (r4, w4)"
  shows "replaceAndRotate sys (fw, st) =
           (fw\<lparr>rotating := 0\<rparr>,
            \<lparr>world = w4,
             trace = trace st @ [Sys (MkdirAll (dir fw)) r1, Sys Now r2, Sys (OpenFile name) r3,
                                 Sys (Sleep 10) r4, StoreRotating 0]\<rparr>)"
  using assms
  by (simp add: replaceAndRotate_def call_def emit_def Let_def)

theorem failed_open_abandons_rotation_witness:
  "wn (fst (replaceAndRotate sample_sys
        (sample_writer\<lparr>wn := 7, rotating := 1\<rparr>, begin_run open_refused))) = 7
   \<and> fp (fst (replaceAndRotate sample_sys
        (sample_writer\<lparr>wn := 7, rotating := 1\<rparr>, begin_run open_refused)))
       = File ''log/app-20240105-000000''
   \<and> rotating (fst (replaceAndRotate sample_sys
        (sample_writer\<lparr>wn := 7, rotating := 1\<rparr>, begin_run open_refused))) = 0
   \<and> sys_calls (trace (snd (replaceAndRotate sample_sys
        (sample_writer\<lparr>wn := 7, rotating := 1\<rparr>, begin_run open_refused))))
       = [MkdirAll ''log'', Now, OpenFile ''log/app-20240105-000000'', Sleep 10]"
proof -
  let ?fw = "sample_writer\<lparr>wn := 7, rotating := 1\<rparr>"
  let ?st = "begin_run open_refused"
  obtain r1 w1 where a1: "sample_sys (MkdirAll (dir ?fw)) (world ?st) = (r1, w1)"
    by (rule prod.exhaust)
  obtain r2 w2 where a2: "sample_sys Now w1 = (r2, w2)"
    by (rule prod.exhaust)
  have w1: "w1 = open_refused"
    using a1 sample_sys_world [of "MkdirAll (dir ?fw)" "world ?st"]
    by (simp add: begin_run_def)
  have r2: "now r2 = at 2024 1 5 0 0 0 0" and w2: "w2 = open_refused"
    using a2 unfolding w1 by (auto simp: sample_sys_def open_refused_def Let_def)
  have n: "Join [dir ?fw, file_name ?fw] @ ''-'' @ Format_fileTime (now r2)
           = ''log/app-20240105-000000''"
    unfolding r2 by code_simp
  obtain r3 w3 where a3: "sample_sys (OpenFile ''log/app-20240105-000000'') w2 = (r3, w3)"
    by (rule prod.exhaust)
  have e3: "err r3 \<noteq> None"
    using a3 unfolding w2 by (auto simp: sample_sys_def open_refused_def Let_def)
  obtain r4 w4 where a4: "sample_sys (Sleep 10) w3 = (r4, w4)"
    by (rule prod.exhaust)
  from failed_open_abandons_rotation [OF a1 a2 n [symmetric] a3 e3 a4]
  show ?thesis by (simp add: sample_writer_def begin_run_def)
qed

section \<open>The retention sweep\<close>

lemma trace_call: "trace (snd (call sys c st)) = trace st @ [Sys c (fst (call sys c st))]"
  by (simp add: call_def split: prod.splits)

lemma remove_loop_trace:
  "\<exists>evs. trace (remove_loop sys fw tnow es st) = trace st @ evs
     \<and> sys_calls evs =
         map (\<lambda>e. RemoveAll (Join [archiveDir fw, e_name e]))
           (filter (\<lambda>e. e_isDir e \<and> length (e_name e) = 8
              \<and> (case Parse_archiveDate (e_name e) of None \<Rightarrow> False
                  | Some date \<Rightarrow> rotateDays fw < (Unix tnow - Unix date) sdiv 86400)) es)
     \<and> length evs = length (sys_calls evs)"
proof (induction es arbitrary: st)
  case Nil
  then show ?case by simp
next
  case (Cons entry es)
  show ?case
  proof (cases "e_isDir entry \<and> length (e_name entry) = 8
              \<and> (case Parse_archiveDate (e_name entry) of None \<Rightarrow> False
                  | Some date \<Rightarrow> rotateDays fw < (Unix tnow - Unix date) sdiv 86400)")
    case True
    then obtain date where d: "Parse_archiveDate (e_name entry) = Some date"
      and old: "rotateDays fw < (Unix tnow - Unix date) sdiv 86400"
      by (auto split: option.splits)
    let ?st' = "removeArchive sys fw (e_name entry) st"
    from Cons.IH [of ?st'] obtain evs where
      e: "trace (remove_loop sys fw tnow es ?st') = trace ?st' @ evs"
      and c: "sys_calls evs = map (\<lambda>e. RemoveAll (Join [archiveDir fw, e_name e]))
           (filter (\<lambda>e. e_isDir e \<and> length (e_name e) = 8
              \<and> (case Parse_archiveDate (e_name e) of None \<Rightarrow> False
                  | Some date \<Rightarrow> rotateDays fw < (Unix tnow - Unix date) sdiv 86400)) es)"
      and l: "length evs = length (sys_calls evs)"
      by blast
    have t: "trace ?st' = trace st @ [Sys (RemoveAll (Join [archiveDir fw, e_name entry]))
        (fst (call sys (RemoveAll (Join [archiveDir fw, e_name entry])) st))]"
      by (simp add: removeArchive_def trace_call)
    have "remove_loop sys fw tnow (entry # es) st = remove_loop sys fw tnow es ?st'"
      using True d old by (simp add: archiveDateLayout_def)
    then show ?thesis using e c l t True
      by (rule_tac x = "Sys (RemoveAll (Join [archiveDir fw, e_name entry]))
        (fst (call sys (RemoveAll (Join [archiveDir fw, e_name entry])) st)) # evs" in exI) simp
  next
    case False
    then have "remove_loop sys fw tnow (entry # es) st = remove_loop sys fw tnow es st"
      by (auto simp: archiveDateLayout_def split: option.splits)
    then show ?thesis using Cons.IH [of st] False by auto
  qed
qed


lemma Parse_archiveDate_utc:
  "Parse_archiveDate n = Some d \<Longrightarrow>
   t_offset d = 0 \<and> t_hour d = 0 \<and> t_min d = 0 \<and> t_sec d = 0"
  by (auto simp: Parse_archiveDate_def split: option.splits if_splits prod.splits)

text \<open>
  C6, as the code has it. When the archive directory can be listed, the sweep lists it,
  reads the clock once, and then calls \<^verbatim>\<open>RemoveAll\<close> on exactly those entries, in the
  order of the listing, that are directories, have a name of eight characters that parses
  as a date, and whose age in whole days is above \<^verbatim>\<open>rotateDays\<close>; an entry whose age
  equals \<^verbatim>\<open>rotateDays\<close> is kept, and nothing else is removed. The age is the difference
  of two \<^verbatim>\<open>Unix()\<close> values divided by 86400 towards zero: the absolute time of the
  sweep, and midnight UTC of the date in the name, whatever the local time zone is.
\<close>

theorem sweep_removes_what_is_older:
  assumes "sys (ReadDir (archiveDir fw)) (world st) = (r, w1)"
    and "err r = None"
    and "sys Now w1 = (t, w2)"
  shows "sys_calls (trace (remove sys fw st)) =
           sys_calls (trace st) @ [ReadDir (archiveDir fw), Now]
           @ map (\<lambda>e. RemoveAll (Join [archiveDir fw, e_name e]))
               (filter (\<lambda>e. e_isDir e \<and> length (e_name e) = 8
                  \<and> (case Parse_archiveDate (e_name e) of None \<Rightarrow> False
                      | Some date \<Rightarrow>
                          rotateDays fw
                          < (Unix (now t)
                             - daysSinceEpoch (t_year date) (t_month date) (t_day date) * 86400)
                            sdiv 86400))
                  (entries r))"
proof -
  let ?st2 = "\<lparr>world = w2, trace = trace st @ [Sys (ReadDir (archiveDir fw)) r, Sys Now t]\<rparr>"
  have "remove sys fw st = remove_loop sys fw (now t) (entries r) ?st2"
    using assms by (simp add: remove_def call_def)
  moreover obtain evs where "trace (remove_loop sys fw (now t) (entries r) ?st2) = trace ?st2 @ evs"
    and "sys_calls evs =
         map (\<lambda>e. RemoveAll (Join [archiveDir fw, e_name e]))
           (filter (\<lambda>e. e_isDir e \<and> length (e_name e) = 8
              \<and> (case Parse_archiveDate (e_name e) of None \<Rightarrow> False
                  | Some date \<Rightarrow> rotateDays fw < (Unix (now t) - Unix date) sdiv 86400))
              (entries r))"
    using remove_loop_trace [of sys fw "now t" "entries r" ?st2] by blast
  moreover have "filter (\<lambda>e. e_isDir e \<and> length (e_name e) = 8
              \<and> (case Parse_archiveDate (e_name e) of None \<Rightarrow> False
                  | Some date \<Rightarrow> rotateDays fw < (Unix (now t) - Unix date) sdiv 86400))
              (entries r)
     = filter (\<lambda>e. e_isDir e \<and> length (e_name e) = 8
                  \<and> (case Parse_archiveDate (e_name e) of None \<Rightarrow> False
                      | Some date \<Rightarrow>
                          rotateDays fw
                          < (Unix (now t)
                             - daysSinceEpoch (t_year date) (t_month date) (t_day date) * 86400)
                            sdiv 86400))
              (entries r)"
    by (rule filter_cong) (auto simp: Unix_def split: option.splits dest: Parse_archiveDate_utc)
  ultimately show ?thesis by (simp add: sys_calls_append)
qed

theorem sweep_removes_what_is_older_witness:
  "sys_calls (trace (remove sample_sys sample_writer (begin_run a_week_on)))
   = [ReadDir ''archive'', Now, RemoveAll ''archive/20240101'']"
proof -
  have h1: "sample_sys (ReadDir (archiveDir sample_writer)) (world (begin_run a_week_on))
            = (fst (sample_sys (ReadDir ''archive'') a_week_on), a_week_on)"
    by (simp add: prod_eq_iff sample_sys_world sample_writer_def begin_run_def)
  have h2: "err (fst (sample_sys (ReadDir ''archive'') a_week_on)) = None"
    by code_simp
  have h3: "sample_sys Now a_week_on = (fst (sample_sys Now a_week_on), a_week_on)"
    by (simp add: prod_eq_iff sample_sys_world)
  show ?thesis
    by (subst sweep_removes_what_is_older [OF h1 h2 h3]) code_simp
qed

text \<open>C6 as stated fails where it takes both times from the local wall clock. At local
  midnight of 2024-01-09 in a zone eight hours east of UTC, the directory
  \<^verbatim>\<open>20240101\<close> is eight whole days old by the wall clock, which is more than
  \<^verbatim>\<open>rotateDays = 7\<close>; the code computes seven days and keeps it.\<close>

theorem sweep_wall_clock_counterexample:
  "Parse_archiveDate ''20240101'' = Some (at 2024 1 1 0 0 0 0)
   \<and> 7 < spec_ageDays (s_clock midnight_east) (at 2024 1 1 0 0 0 0)
   \<and> (Unix (s_clock midnight_east) - Unix (at 2024 1 1 0 0 0 0)) sdiv 86400 = 7
   \<and> sys_calls (trace (remove sample_sys (sample_writer\<lparr>rotateDays := 7\<rparr>) (begin_run midnight_east)))
       = [ReadDir ''archive'', Now]"
  by code_simp

section \<open>The rotation pass\<close>

lemma archiveFile_trace:
  "\<exists>evs. trace (archiveFile sys fw name t st) = trace st @ evs
     \<and> (\<forall>p. RemoveAll p \<notin> set (sys_calls evs))"
  by (auto simp: archiveFile_def call_def emit_def Let_def sys_calls_append split: prod.splits)

lemma archive_loop_trace:
  "\<exists>evs. trace (archive_loop sys fw es st) = trace st @ evs
     \<and> (\<forall>p. RemoveAll p \<notin> set (sys_calls evs))"
proof (induction es arbitrary: st)
  case Nil
  then show ?case by simp
next
  case (Cons entry es)
  show ?case
  proof (cases "archive_loop sys fw (entry # es) st = archive_loop sys fw es st")
    case True
    then show ?thesis using Cons.IH [of st] by simp
  next
    case False
    then obtain name t where
      "archive_loop sys fw (entry # es) st = archive_loop sys fw es (archiveFile sys fw name t st)"
      by (auto simp: Let_def split: if_splits option.splits)
    moreover obtain e1 where "trace (archiveFile sys fw name t st) = trace st @ e1"
      and "\<forall>p. RemoveAll p \<notin> set (sys_calls e1)"
      using archiveFile_trace by blast
    moreover obtain e2 where "trace (archive_loop sys fw es (archiveFile sys fw name t st))
        = trace (archiveFile sys fw name t st) @ e2"
      and "\<forall>p. RemoveAll p \<notin> set (sys_calls e2)"
      using Cons.IH by blast
    ultimately show ?thesis
      by (rule_tac x = "e1 @ e2" in exI) (simp add: sys_calls_append)
  qed
qed

lemma archive_trace:
  "\<exists>r ar. trace (archive sys fw st) = trace st @ Sys (ReadDir (dir fw)) r # ar
     \<and> (\<forall>p. RemoveAll p \<notin> set (sys_calls ar))"
proof -
  obtain r w1 where c: "sys (ReadDir (dir fw)) (world st) = (r, w1)"
    by (rule prod.exhaust)
  let ?st1 = "\<lparr>world = w1, trace = trace st @ [Sys (ReadDir (dir fw)) r]\<rparr>"
  show ?thesis
  proof (cases "err r = None")
    case True
    then have "archive sys fw st = archive_loop sys fw (entries r) ?st1"
      using c by (simp add: archive_def call_def)
    then show ?thesis using archive_loop_trace [of sys fw "entries r" ?st1] by auto
  next
    case False
    then have "archive sys fw st = ?st1"
      using c by (simp add: archive_def call_def)
    then show ?thesis by simp
  qed
qed

lemma remove_trace:
  "\<exists>r sw. trace (remove sys fw st) = trace st @ Sys (ReadDir (archiveDir fw)) r # sw
     \<and> set (sys_calls sw) \<subseteq> insert Now (range RemoveAll)"
proof -
  obtain r w1 where c: "sys (ReadDir (archiveDir fw)) (world st) = (r, w1)"
    by (rule prod.exhaust)
  obtain t w2 where n: "sys Now w1 = (t, w2)"
    by (rule prod.exhaust)
  let ?st1 = "\<lparr>world = w1, trace = trace st @ [Sys (ReadDir (archiveDir fw)) r]\<rparr>"
  let ?st2 = "\<lparr>world = w2, trace = trace st @ [Sys (ReadDir (archiveDir fw)) r, Sys Now t]\<rparr>"
  show ?thesis
  proof (cases "err r = None")
    case True
    then have "remove sys fw st = remove_loop sys fw (now t) (entries r) ?st2"
      using c n by (simp add: remove_def call_def)
    moreover obtain evs where "trace (remove_loop sys fw (now t) (entries r) ?st2) = trace ?st2 @ evs"
      and m: "sys_calls evs =
         map (\<lambda>e. RemoveAll (Join [archiveDir fw, e_name e]))
           (filter (\<lambda>e. e_isDir e \<and> length (e_name e) = 8
              \<and> (case Parse_archiveDate (e_name e) of None \<Rightarrow> False
                  | Some date \<Rightarrow> rotateDays fw < (Unix (now t) - Unix date) sdiv 86400))
              (entries r))"
      using remove_loop_trace [of sys fw "now t" "entries r" ?st2] by blast
    moreover have "set (sys_calls evs) \<subseteq> range RemoveAll"
      unfolding m by auto
    ultimately show ?thesis
      by (rule_tac x = r in exI, rule_tac x = "Sys Now t # evs" in exI) auto
  next
    case False
    then have "remove sys fw st = ?st1"
      using c by (simp add: remove_def call_def)
    then show ?thesis by simp
  qed
qed

text \<open>
  C4, as the code has it. The pass does nothing without an archive root. With one, whatever
  \<^verbatim>\<open>rotateDays\<close> is, it starts with the sweep's listing of the archive root; all that
  the sweep does (the clock, the removals) comes before the archiver's listing of the write
  directory, and the archiver removes no directory tree.
\<close>

theorem sweep_needs_only_the_archive_root_and_runs_first:
  "(archiveDir fw = [] \<longrightarrow> rotate_fw sys fw st = st)
   \<and> (archiveDir fw \<noteq> [] \<longrightarrow>
        (\<exists>r sw r' ar.
           trace (remove sys fw st) = trace st @ Sys (ReadDir (archiveDir fw)) r # sw
           \<and> trace (rotate_fw sys fw st)
               = trace st @ Sys (ReadDir (archiveDir fw)) r # sw @ Sys (ReadDir (dir fw)) r' # ar
           \<and> set (sys_calls sw) \<subseteq> insert Now (range RemoveAll)
           \<and> (\<forall>p. RemoveAll p \<notin> set (sys_calls ar))))"
proof -
  obtain r sw where a: "trace (remove sys fw st) = trace st @ Sys (ReadDir (archiveDir fw)) r # sw"
    and b: "set (sys_calls sw) \<subseteq> insert Now (range RemoveAll)"
    using remove_trace by blast
  obtain r' ar where c: "trace (archive sys fw (remove sys fw st))
      = trace (remove sys fw st) @ Sys (ReadDir (dir fw)) r' # ar"
    and d: "\<forall>p. RemoveAll p \<notin> set (sys_calls ar)"
    using archive_trace by blast
  show ?thesis using a b c d by (auto simp: rotate_fw_def)
qed

theorem sweep_needs_only_the_archive_root_and_runs_first_witness:
  "archiveDir sample_writer \<noteq> []
   \<and> rotate_fw sample_sys (sample_writer\<lparr>archiveDir := []\<rparr>) (begin_run a_week_on)
       = begin_run a_week_on
   \<and> take 1 (sys_calls (trace (rotate_fw sample_sys sample_writer (begin_run a_week_on))))
       = [ReadDir ''archive'']"
proof -
  have a: "archiveDir sample_writer \<noteq> []"
    by (simp add: sample_writer_def)
  have b: "archiveDir (sample_writer\<lparr>archiveDir := []\<rparr>) = []"
    by simp
  note t1 = sweep_needs_only_the_archive_root_and_runs_first
    [of "sample_writer\<lparr>archiveDir := []\<rparr>" sample_sys "begin_run a_week_on"]
  note t2 = sweep_needs_only_the_archive_root_and_runs_first
    [of sample_writer sample_sys "begin_run a_week_on"]
  have c: "rotate_fw sample_sys (sample_writer\<lparr>archiveDir := []\<rparr>) (begin_run a_week_on)
           = begin_run a_week_on"
    using t1 b by blast
  obtain r sw r' ar where
    "trace (rotate_fw sample_sys sample_writer (begin_run a_week_on))
     = trace (begin_run a_week_on) @ Sys (ReadDir (archiveDir sample_writer)) r # sw
       @ Sys (ReadDir (dir sample_writer)) r' # ar"
    using t2 a by blast
  then have "take 1 (sys_calls (trace (rotate_fw sample_sys sample_writer (begin_run a_week_on))))
             = [ReadDir ''archive'']"
    by (simp add: begin_run_def sample_writer_def)
  then show ?thesis using a c by simp
qed

text \<open>C4 as stated fails: with an archive root and \<^verbatim>\<open>rotateDays\<close> left at 0, the sweep
  runs and removes the directory of four days ago.\<close>

theorem sweep_without_retention_days_counterexample:
  "rotateDays sample_writer = 0
   \<and> sys_calls (trace (rotate_fw sample_sys sample_writer (begin_run a_week_on)))
       = [ReadDir ''archive'', Now, RemoveAll ''archive/20240101'', ReadDir ''log'',
          MkdirAll ''archive/20240102'',
          Rename ''log/app-20240102-030405'' ''archive/20240102/app-20240102-030405'']"
  by code_simp

end
